theory Spec2Isabelle
  imports Main "HOL-Library.Sublist"
begin

section \<open>JavaScript values, strings and option objects\<close>

text \<open>
  The daemon base class of \<^verbatim>\<open>src/platform/common/process/baseDaemon.node.ts\<close> reads its
  \<^verbatim>\<open>SpawnOptions\<close> argument in two ways: through \<^verbatim>\<open>Object.keys(options)\<close> and through
  property reads that are tested for truthiness. An options object is therefore an
  association list from own property names to values, in insertion order; a property
  that is absent reads as \<^verbatim>\<open>undefined\<close>.
\<close>

datatype js_val = JUndefined | JBool bool | JStr string | JObj string

fun truthy :: "js_val \<Rightarrow> bool" where
  "truthy JUndefined = False"
| "truthy (JBool b) = b"
| "truthy (JStr s) = (s \<noteq> [])"
| "truthy (JObj _) = True"

type_synonym SpawnOptions = "(string \<times> js_val) list"

definition Object_keys :: "SpawnOptions \<Rightarrow> string list" where
  "Object_keys options = map fst options"

definition get_prop :: "SpawnOptions \<Rightarrow> string \<Rightarrow> js_val" where
  "get_prop options k = (case map_of options k of Some v \<Rightarrow> v | None \<Rightarrow> JUndefined)"

text \<open>An optional string property (\<^verbatim>\<open>error?: string\<close>) is truthy when present and non-empty.\<close>

fun truthy_str :: "string option \<Rightarrow> bool" where
  "truthy_str None = False"
| "truthy_str (Some s) = (s \<noteq> [])"

text \<open>Such a property written into a message or a template literal.\<close>

fun text_of :: "string option \<Rightarrow> string" where
  "text_of None = ''undefined''"
| "text_of (Some s) = s"

text \<open>
  \<^verbatim>\<open>Array.prototype.indexOf\<close>: the first position of the element, or -1.
\<close>

fun indexOf :: "'a list \<Rightarrow> 'a \<Rightarrow> int" where
  "indexOf [] x = - 1"
| "indexOf (y # ys) x =
     (if y = x then 0 else (let i = indexOf ys x in if i < 0 then - 1 else i + 1))"

text \<open>
  \<^verbatim>\<open>String.prototype.toLowerCase\<close> on the ASCII letters; every other character is kept.
  (No character outside A-Z lower-cases to one of the characters of \<^verbatim>\<open>.py\<close>.)
\<close>

definition toLowerCaseChar :: "char \<Rightarrow> char" where
  "toLowerCaseChar c =
     (case map_of (zip ''ABCDEFGHIJKLMNOPQRSTUVWXYZ'' ''abcdefghijklmnopqrstuvwxyz'') c of
        Some l \<Rightarrow> l
      | None \<Rightarrow> c)"

definition toLowerCase :: "string \<Rightarrow> string" where
  "toLowerCase s = map toLowerCaseChar s"

text \<open>\<^verbatim>\<open>String.prototype.endsWith\<close>: compares the last \<^verbatim>\<open>t.length\<close> characters.\<close>

definition endsWith :: "string \<Rightarrow> string \<Rightarrow> bool" where
  "endsWith s t = (length t \<le> length s \<and> drop (length s - length t) s = t)"

text \<open>\<^verbatim>\<open>util.format\<close> of an integer exit code: its decimal digits.\<close>

fun digits :: "nat \<Rightarrow> string" where
  "digits n =
     (if n < 10 then [''0123456789'' ! n]
      else digits (n div 10) @ [''0123456789'' ! (n mod 10)])"

declare digits.simps [simp del]

definition util_format :: "int \<Rightarrow> string" where
  "util_format i = (if i < 0 then CHR ''-'' # digits (nat (- i)) else digits (nat i))"

section \<open>Errors and results\<close>

text \<open>
  \<^verbatim>\<open>ConnectionClosedError\<close> and \<^verbatim>\<open>DaemonError\<close> are the two classes the file declares;
  \<^verbatim>\<open>StdErrError\<close> comes from the process types; \<^verbatim>\<open>TypeError\<close> is what the runtime raises
  on a property read of \<^verbatim>\<open>undefined\<close>; \<^verbatim>\<open>OtherError\<close> stands for every error raised by
  a collaborator (the RPC connection, the fallback executor).
\<close>

datatype exn =
    ConnectionClosedError string
  | DaemonError string
  | StdErrError string
  | TypeError
  | OtherError string

text \<open>The final state of a promise: fulfilled, rejected, or never settled.\<close>

datatype 'a promise = Resolved 'a | Rejected exn | Pending

record ExecResponse =
  error :: "string option"
  stdout :: string
  stderr :: "string option"

datatype source_kind = Stdout | Stderr

record Output =
  source :: source_kind
  out :: string

section \<open>The capability gate\<close>

definition daemonSupportedSpawnOptions :: "string list" where
  "daemonSupportedSpawnOptions =
     [''cwd'', ''env'', ''throwOnStdErr'', ''token'', ''encoding'', ''mergeStdOutErr'']"

definition areOptionsSupported :: "SpawnOptions \<Rightarrow> bool" where
  "areOptionsSupported options =
     list_all (\<lambda>item. indexOf daemonSupportedSpawnOptions item \<ge> 0) (Object_keys options)"

text \<open>
  \<^verbatim>\<open>args[0].toLowerCase()\<close> on an empty argument list reads a property of
  \<^verbatim>\<open>undefined\<close> and raises.
\<close>

fun canExecFileUsingDaemon :: "string list \<Rightarrow> SpawnOptions \<Rightarrow> exn + bool" where
  "canExecFileUsingDaemon [] options = Inl TypeError"
| "canExecFileUsingDaemon (a # _) options =
     Inr (endsWith (toLowerCase a) ''.py'' \<and> areOptionsSupported options)"

definition canExecModuleUsingDaemon :: "string \<Rightarrow> string list \<Rightarrow> SpawnOptions \<Rightarrow> bool" where
  "canExecModuleUsingDaemon moduleName args options = areOptionsSupported options"

section \<open>The daemon: state, connection monitor and disposal\<close>

text \<open>
  The child process handle: its \<^verbatim>\<open>exitCode\<close> (\<^verbatim>\<open>null\<close> until an exit with a numeric
  code is observed) and the \<^verbatim>\<open>kill\<close> calls it has received, each with its signal argument
  (\<^verbatim>\<open>None\<close> for the call without an argument).
\<close>

record ChildProcess =
  exitCode :: "int option"
  kill_calls :: "string option list"

text \<open>
  The three connection listeners that \<^verbatim>\<open>monitorConnection\<close> pushes on \<^verbatim>\<open>disposables\<close>,
  each with the number of times its \<^verbatim>\<open>dispose()\<close> has been called. A listener is
  still registered while that number is 0. The \<^verbatim>\<open>exit\<close> listener of the process is not
  among the disposables and stays registered.
\<close>

datatype listener = onClose | onDispose | onError

text \<open>
  \<^verbatim>\<open>connectionClosedDeferred\<close> is \<^verbatim>\<open>None\<close> while its promise is pending and holds the
  error once it has been rejected (nothing in the class resolves it).
\<close>

record BasePythonDaemon =
  connectionClosedMessage :: string
  connectionClosedDeferred :: "exn option"
  disposables :: "(listener \<times> nat) list"
  disposed :: bool
  isWindows :: bool
  proc :: ChildProcess

definition isAlive :: "BasePythonDaemon \<Rightarrow> bool" where
  "isAlive d = (connectionClosedMessage d = [])"

text \<open>The constructor: wraps an already spawned process and registers the listeners.\<close>

definition create :: "bool \<Rightarrow> ChildProcess \<Rightarrow> BasePythonDaemon" where
  "create platformIsWindows p =
     \<lparr> connectionClosedMessage = [],
       connectionClosedDeferred = None,
       disposables = [(onClose, 0), (onDispose, 0), (onError, 0)],
       disposed = False,
       isWindows = platformIsWindows,
       proc = p \<rparr>"

text \<open>\<^verbatim>\<open>Deferred.reject\<close>: only the first settlement has an effect.\<close>

fun reject :: "exn option \<Rightarrow> exn \<Rightarrow> exn option" where
  "reject None e = Some e"
| "reject (Some e0) e = Some e0"

text \<open>
  \<^verbatim>\<open>this.proc.kill(signal)\<close>. The call stands in a \<^verbatim>\<open>try\<close> whose \<^verbatim>\<open>catch\<close> does nothing, so a
  throwing \<^verbatim>\<open>kill\<close> changes nothing in what follows; the call is recorded either way.
\<close>

definition kill :: "string option \<Rightarrow> BasePythonDaemon \<Rightarrow> BasePythonDaemon" where
  "kill sig d = d\<lparr>proc := (proc d)\<lparr>kill_calls := kill_calls (proc d) @ [sig]\<rparr>\<rparr>"

definition dispose :: "BasePythonDaemon \<Rightarrow> BasePythonDaemon" where
  "dispose d =
     (let d1 = d\<lparr>connectionClosedMessage := ''Daemon disposed from dispose()''\<rparr> in
      if \<not> disposed d1 then
        (let d2 = d1\<lparr>disposed := True\<rparr>;
             d3 = (if isWindows d2 then kill None d2 else kill (Some ''SIGKILL'') d2)
         in d3\<lparr>disposables := map (\<lambda>(l, n). (l, Suc n)) (disposables d3)\<rparr>)
      else d1)"

text \<open>
  \<^verbatim>\<open>logConnectionStatus(msg, ex)\<close>; \<^verbatim>\<open>ex\<close> is \<^verbatim>\<open>Some\<close> of its formatted text when it is
  truthy.
\<close>

definition logConnectionStatus ::
  "string \<Rightarrow> string option \<Rightarrow> BasePythonDaemon \<Rightarrow> BasePythonDaemon" where
  "logConnectionStatus msg ex d =
     (if \<not> disposed d then
        (let m = connectionClosedMessage d @ msg @
                   (case ex of Some t \<Rightarrow> '', With Error: '' @ t | None \<Rightarrow> [])
         in d\<lparr>connectionClosedMessage := m,
              connectionClosedDeferred :=
                reject (connectionClosedDeferred d) (ConnectionClosedError m)\<rparr>)
      else d)"

definition registered :: "listener \<Rightarrow> BasePythonDaemon \<Rightarrow> bool" where
  "registered l d = ((l, 0) \<in> set (disposables d))"

text \<open>
  What can happen to a daemon: the connection closes, is disposed or reports an error
  (formatted), the process exits with a code (\<^verbatim>\<open>null\<close> when a signal killed it), or an
  owner calls \<^verbatim>\<open>dispose()\<close>.
\<close>

datatype event =
    ConnectionClose
  | ConnectionDispose
  | ConnectionError string
  | ProcessExit "int option"
  | DisposeCall

text \<open>
  The \<^verbatim>\<open>exit\<close> listener passes the exit code as \<^verbatim>\<open>ex\<close>: \<^verbatim>\<open>null\<close> and 0 are falsy, any
  other code is formatted.
\<close>

fun exit_code_text :: "int option \<Rightarrow> string option" where
  "exit_code_text None = None"
| "exit_code_text (Some c) = (if c = 0 then None else Some (util_format c))"

fun fire :: "event \<Rightarrow> BasePythonDaemon \<Rightarrow> BasePythonDaemon" where
  "fire ConnectionClose d =
     (if registered onClose d then logConnectionStatus ''Daemon Connection Closed'' None d
      else d)"
| "fire ConnectionDispose d =
     (if registered onDispose d then logConnectionStatus ''Daemon Connection disposed'' None d
      else d)"
| "fire (ConnectionError ex) d =
     (if registered onError d
      then logConnectionStatus ''Daemon Connection errored'' (Some ex) d
      else d)"
| "fire (ProcessExit code) d =
     logConnectionStatus ''Daemon Processed died with exit code'' (exit_code_text code)
       (d\<lparr>proc := (proc d)\<lparr>exitCode := code\<rparr>\<rparr>)"
| "fire DisposeCall d = dispose d"

fun run :: "event list \<Rightarrow> BasePythonDaemon \<Rightarrow> BasePythonDaemon" where
  "run [] d = d"
| "run (e # es) d = run es (fire e d)"

section \<open>Requests: the race against the closed-state promise\<close>

datatype target = FileName string | ModuleName string

text \<open>
  A request on the connection: the method, the file or module name, \<^verbatim>\<open>args\<close>, and the
  \<^verbatim>\<open>cwd\<close> and \<^verbatim>\<open>env\<close> properties copied from the options.
\<close>

datatype request = Request string target "string list" js_val js_val

datatype fallback_call =
    FallbackExec "string list" SpawnOptions
  | FallbackExecModule string "string list" SpawnOptions
  | FallbackExecObservable "string list" SpawnOptions
  | FallbackExecModuleObservable string "string list" SpawnOptions

text \<open>What a call does to its collaborators, in order.\<close>

datatype action =
    TraceError string
  | TraceWarning string
  | ConnectionSendRequest request
  | CallFallback fallback_call

text \<open>
  \<^verbatim>\<open>pythonExecutionService\<close>, the fallback executor: an external collaborator, given by
  what each of its four calls returns. A streaming call returns its result (or throws)
  at once; the result itself is opaque here.
\<close>

record 'o IPythonExecutionService =
  svc_exec :: "string list \<Rightarrow> SpawnOptions \<Rightarrow> ExecResponse promise"
  svc_execModule :: "string \<Rightarrow> string list \<Rightarrow> SpawnOptions \<Rightarrow> ExecResponse promise"
  svc_execObservable :: "string list \<Rightarrow> SpawnOptions \<Rightarrow> exn + 'o"
  svc_execModuleObservable :: "string \<Rightarrow> string list \<Rightarrow> SpawnOptions \<Rightarrow> exn + 'o"

text \<open>
  What happens on the event loop after a call has started, in order: a daemon event, the
  answer to the request on the connection (possibly no response object), a failure of
  the request in the RPC layer, an \<^verbatim>\<open>output\<close> notification, raw data on the stderr of the
  process, the 100 ms timer of a streaming call.
\<close>

datatype occurrence =
    Event event
  | Response "ExecResponse option"
  | RequestFailed string
  | OutputNotification Output
  | StderrData string
  | TimerFired

text \<open>
  \<^verbatim>\<open>Promise.race([connection.sendRequest(...), connectionClosedDeferred.promise])\<close> with
  the deferred still pending: the first occurrence that settles either promise settles
  the race.
\<close>

fun race ::
  "BasePythonDaemon \<Rightarrow> occurrence list \<Rightarrow> (ExecResponse option) promise \<times> BasePythonDaemon"
where
  "race d [] = (Pending, d)"
| "race d (Response r # _) = (Resolved r, d)"
| "race d (RequestFailed t # _) = (Rejected (OtherError t), d)"
| "race d (Event e # rest) =
     (case connectionClosedDeferred (fire e d) of
        Some x \<Rightarrow> (Rejected x, fire e d)
      | None \<Rightarrow> race (fire e d) rest)"
| "race d (_ # rest) = race d rest"

text \<open>Awaiting \<^verbatim>\<open>connectionClosedDeferred.promise\<close> alone: no request was sent.\<close>

fun await_closed ::
  "BasePythonDaemon \<Rightarrow> occurrence list \<Rightarrow> (ExecResponse option) promise \<times> BasePythonDaemon"
where
  "await_closed d [] = (Pending, d)"
| "await_closed d (Event e # rest) =
     (case connectionClosedDeferred (fire e d) of
        Some x \<Rightarrow> (Rejected x, fire e d)
      | None \<Rightarrow> await_closed (fire e d) rest)"
| "await_closed d (_ # rest) = await_closed d rest"

text \<open>
  \<^verbatim>\<open>sendRequest\<close>: the settlement of the returned promise under the schedule, the daemon
  at that moment, and the actions taken. (\<^verbatim>\<open>this.proc\<close> is always an object, and
  \<^verbatim>\<open>typeof this.proc.exitCode === 'number'\<close> is \<open>exitCode \<noteq> None\<close>.)
\<close>

definition sendRequest ::
  "BasePythonDaemon \<Rightarrow> request \<Rightarrow> occurrence list \<Rightarrow>
     (ExecResponse option) promise \<times> BasePythonDaemon \<times> action list" where
  "sendRequest d req sched =
     (let log = (if \<not> isAlive d \<or> exitCode (proc d) \<noteq> None
                 then [TraceError ''Daemon is handling a request after death.'']
                 else [])
      in if isAlive d \<and> exitCode (proc d) = None then
           (case connectionClosedDeferred d of
              Some x \<Rightarrow> (Rejected x, d, log @ [ConnectionSendRequest req])
            | None \<Rightarrow>
                (case race d sched of (s, d') \<Rightarrow> (s, d', log @ [ConnectionSendRequest req])))
         else
           (case connectionClosedDeferred d of
              Some x \<Rightarrow> (Rejected x, d, log)
            | None \<Rightarrow> (case await_closed d sched of (s, d') \<Rightarrow> (s, d', log))))"

section \<open>Batch execution\<close>

text \<open>
  \<^verbatim>\<open>processResponse\<close> throws or mutates \<^verbatim>\<open>response.stdout\<close> in place; the response object
  is what the caller then returns. \<^verbatim>\<open>eol\<close> is \<^verbatim>\<open>os.EOL\<close>. (\<^verbatim>\<open>response.stdout || ''\<close> is
  \<^verbatim>\<open>response.stdout\<close> on a string.)
\<close>

definition processResponse ::
  "string \<Rightarrow> ExecResponse \<Rightarrow> SpawnOptions \<Rightarrow> exn + ExecResponse" where
  "processResponse eol response options =
     (if truthy_str (error response)
      then Inl (DaemonError
                  (''Failed to execute using the daemon, '' @ text_of (error response)))
      else if truthy_str (stderr response) \<and> truthy (get_prop options ''throwOnStdErr'')
      then Inl (StdErrError (text_of (stderr response)))
      else if truthy_str (stderr response) \<and> truthy (get_prop options ''mergeStdOutErr'')
      then Inr (response\<lparr>stdout := stdout response @ eol @ text_of (stderr response)\<rparr>)
      else Inr response)"

text \<open>
  The code after \<^verbatim>\<open>await this.sendRequest(...)\<close> in \<^verbatim>\<open>execFileWithDaemon\<close> and
  \<^verbatim>\<open>execModuleWithDaemon\<close>: \<^verbatim>\<open>processResponse(response, options); return response\<close>.
  Reading \<^verbatim>\<open>response.error\<close> of a missing response object raises.
\<close>

definition processAwaited ::
  "string \<Rightarrow> SpawnOptions \<Rightarrow> (ExecResponse option) promise \<Rightarrow> ExecResponse promise" where
  "processAwaited eol options s =
     (case s of
        Resolved None \<Rightarrow> Rejected TypeError
      | Resolved (Some response) \<Rightarrow>
          (case processResponse eol response options of
             Inl e \<Rightarrow> Rejected e
           | Inr r \<Rightarrow> Resolved r)
      | Rejected e \<Rightarrow> Rejected e
      | Pending \<Rightarrow> Pending)"

definition execFileWithDaemon ::
  "string \<Rightarrow> BasePythonDaemon \<Rightarrow> string \<Rightarrow> string list \<Rightarrow> SpawnOptions \<Rightarrow> occurrence list \<Rightarrow>
     ExecResponse promise \<times> BasePythonDaemon \<times> action list" where
  "execFileWithDaemon eol d file rest options sched =
     (case sendRequest d
             (Request ''exec_file'' (FileName file) rest
                (get_prop options ''cwd'') (get_prop options ''env'')) sched of
        (s, d', log) \<Rightarrow> (processAwaited eol options s, d', log))"

definition execModuleWithDaemon ::
  "string \<Rightarrow> BasePythonDaemon \<Rightarrow> string \<Rightarrow> string list \<Rightarrow> SpawnOptions \<Rightarrow> occurrence list \<Rightarrow>
     ExecResponse promise \<times> BasePythonDaemon \<times> action list" where
  "execModuleWithDaemon eol d module args options sched =
     (case sendRequest d
             (Request ''exec_module'' (ModuleName module) args
                (get_prop options ''cwd'') (get_prop options ''env'')) sched of
        (s, d', log) \<Rightarrow> (processAwaited eol options s, d', log))"

text \<open>\<^verbatim>\<open>ex instanceof DaemonError || ex instanceof ConnectionClosedError\<close>\<close>

fun isDaemonFailure :: "exn \<Rightarrow> bool" where
  "isDaemonFailure (DaemonError _) = True"
| "isDaemonFailure (ConnectionClosedError _) = True"
| "isDaemonFailure _ = False"

definition fallbackWarning :: string where
  "fallbackWarning = ''Falling back to Python Execution Service due to failure in daemon''"

text \<open>
  \<^verbatim>\<open>exec\<close>. The condition \<^verbatim>\<open>this.isAlive && this.canExecFileUsingDaemon(args, options)\<close>
  stands outside the \<^verbatim>\<open>try\<close>, and \<^verbatim>\<open>&&\<close> evaluates its right operand only when the
  daemon is alive. Inside the \<^verbatim>\<open>try\<close> the argument list has a first element
  (\<^verbatim>\<open>args[0]\<close>, \<^verbatim>\<open>args.slice(1)\<close>), since the gate has just read it.
\<close>

definition exec ::
  "string \<Rightarrow> 'o IPythonExecutionService \<Rightarrow> BasePythonDaemon \<Rightarrow> string list \<Rightarrow> SpawnOptions \<Rightarrow>
     occurrence list \<Rightarrow> ExecResponse promise \<times> BasePythonDaemon \<times> action list" where
  "exec eol svc d args options sched =
     (if isAlive d then
        (case canExecFileUsingDaemon args options of
           Inl e \<Rightarrow> (Rejected e, d, [])
         | Inr False \<Rightarrow>
             (svc_exec svc args options, d, [CallFallback (FallbackExec args options)])
         | Inr True \<Rightarrow>
             (case args of
                [] \<Rightarrow> (Rejected TypeError, d, [])
              | a # rest \<Rightarrow>
                  (case execFileWithDaemon eol d a rest options sched of
                     (Rejected ex, d', log) \<Rightarrow>
                       (if isDaemonFailure ex
                        then (svc_exec svc args options, d',
                              log @ [TraceWarning fallbackWarning,
                                     CallFallback (FallbackExec args options)])
                        else (Rejected ex, d', log))
                   | (res, d', log) \<Rightarrow> (res, d', log))))
      else (svc_exec svc args options, d, [CallFallback (FallbackExec args options)]))"

definition execModule ::
  "string \<Rightarrow> 'o IPythonExecutionService \<Rightarrow> BasePythonDaemon \<Rightarrow> string \<Rightarrow> string list \<Rightarrow>
     SpawnOptions \<Rightarrow> occurrence list \<Rightarrow>
     ExecResponse promise \<times> BasePythonDaemon \<times> action list" where
  "execModule eol svc d module args options sched =
     (if isAlive d \<and> canExecModuleUsingDaemon module args options then
        (case execModuleWithDaemon eol d module args options sched of
           (Rejected ex, d', log) \<Rightarrow>
             (if isDaemonFailure ex
              then (svc_execModule svc module args options, d',
                    log @ [TraceWarning fallbackWarning,
                           CallFallback (FallbackExecModule module args options)])
              else (Rejected ex, d', log))
         | (res, d', log) \<Rightarrow> (res, d', log))
      else (svc_execModule svc module args options, d,
            [CallFallback (FallbackExecModule module args options)]))"

section \<open>Streaming execution\<close>

text \<open>
  What an observer of a \<^verbatim>\<open>Subject\<close> receives. The subject is the library's: it forwards
  \<^verbatim>\<open>next\<close> until the first \<^verbatim>\<open>error\<close> or \<^verbatim>\<open>complete\<close>, which stops it and drops its
  observers, so that nothing reaches them afterwards. \<open>delivered\<close> is what an observer
  subscribed from the start has received.
\<close>

datatype notification = Next Output | Error exn | Complete

record Subject =
  isStopped :: bool
  delivered :: "notification list"

definition Subject_new :: Subject where
  "Subject_new = \<lparr> isStopped = False, delivered = [] \<rparr>"

definition Subject_next :: "Output \<Rightarrow> Subject \<Rightarrow> Subject" where
  "Subject_next v s = (if isStopped s then s else s\<lparr>delivered := delivered s @ [Next v]\<rparr>)"

definition Subject_error :: "exn \<Rightarrow> Subject \<Rightarrow> Subject" where
  "Subject_error e s =
     (if isStopped s then s else s\<lparr>isStopped := True, delivered := delivered s @ [Error e]\<rparr>)"

definition Subject_complete :: "Subject \<Rightarrow> Subject" where
  "Subject_complete s =
     (if isStopped s then s else s\<lparr>isStopped := True, delivered := delivered s @ [Complete]\<rparr>)"

text \<open>The callback subscribed to \<^verbatim>\<open>outputObservable\<close>.\<close>

definition relay :: "SpawnOptions \<Rightarrow> Output \<Rightarrow> Subject \<Rightarrow> Subject" where
  "relay options v s =
     (if source v = Stderr \<and> truthy (get_prop options ''throwOnStdErr'')
      then Subject_error (StdErrError (out v)) s
      else if source v = Stderr \<and> truthy (get_prop options ''mergeStdOutErr'')
      then Subject_next \<lparr> source = Stdout, out = out v \<rparr> s
      else Subject_next v s)"

text \<open>
  The state of one streaming call: the daemon, the subject handed to the caller, whether
  the callback is still subscribed to \<^verbatim>\<open>outputObservable\<close>, the buffer \<^verbatim>\<open>stdErr\<close>, where
  \<^verbatim>\<open>start()\<close> stands (awaiting the race, awaiting the closed-state promise alone, or
  settled), whether the 100 ms timer is running, and the actions taken so far.
\<close>

datatype start_state = AwaitingRace | AwaitingClosed | Settled

record stream =
  daemon :: BasePythonDaemon
  subject :: Subject
  subscribed :: bool
  stdErr :: string
  start :: start_state
  timer :: bool
  trace :: "action list"

fun join_args :: "string list \<Rightarrow> string" where
  "join_args [] = []"
| "join_args [x] = x"
| "join_args (x # y # ys) = x @ '' '' @ join_args (y # ys)"

definition errorMsg :: "target \<Rightarrow> string list \<Rightarrow> string" where
  "errorMsg tgt args =
     ''Failed to run '' @ (case tgt of FileName f \<Rightarrow> f | ModuleName m \<Rightarrow> m) @
     '' as observable with args '' @ join_args args"

text \<open>\<^verbatim>\<open>start()\<close> rejected: the \<^verbatim>\<open>catch\<close> handler, then the \<^verbatim>\<open>finally\<close> handler.\<close>

definition start_failed :: "target \<Rightarrow> string list \<Rightarrow> exn \<Rightarrow> stream \<Rightarrow> stream" where
  "start_failed tgt args ex st =
     st\<lparr> subject :=
           Subject_error ex
             (Subject_next \<lparr> source = Stderr, out = errorMsg tgt args @ [CHR 0x0A] @ stdErr st \<rparr>
                (subject st)),
         start := Settled,
         timer := True,
         trace := trace st @ [TraceError (errorMsg tgt args)] \<rparr>"

text \<open>\<^verbatim>\<open>start()\<close> fulfilled: the \<^verbatim>\<open>finally\<close> handler alone.\<close>

definition start_ok :: "stream \<Rightarrow> stream" where
  "start_ok st = st\<lparr> start := Settled, timer := True \<rparr>"

text \<open>
  \<^verbatim>\<open>execAsObservable\<close> up to its \<^verbatim>\<open>return\<close>: the subject is created, the callback
  subscribed, and \<^verbatim>\<open>start()\<close> runs \<^verbatim>\<open>sendRequest\<close> up to its \<^verbatim>\<open>await\<close>. No statement of
  this part throws; a failure of \<^verbatim>\<open>start()\<close> is delivered on the subject.
\<close>

definition execAsObservable ::
  "BasePythonDaemon \<Rightarrow> target \<Rightarrow> string list \<Rightarrow> SpawnOptions \<Rightarrow> exn + stream" where
  "execAsObservable d tgt args options =
     (let req = Request (case tgt of FileName _ \<Rightarrow> ''exec_file_observable''
                                   | ModuleName _ \<Rightarrow> ''exec_module_observable'')
                  tgt args (get_prop options ''cwd'') (get_prop options ''env'');
          log = (if \<not> isAlive d \<or> exitCode (proc d) \<noteq> None
                 then [TraceError ''Daemon is handling a request after death.'']
                 else []);
          sent = (isAlive d \<and> exitCode (proc d) = None);
          st = \<lparr> daemon = d, subject = Subject_new, subscribed = True, stdErr = [],
                 start = (if sent then AwaitingRace else AwaitingClosed),
                 timer = False,
                 trace = log @ (if sent then [ConnectionSendRequest req] else []) \<rparr>
      in case connectionClosedDeferred d of
           Some x \<Rightarrow> Inr (start_failed tgt args x st)
         | None \<Rightarrow> Inr st)"

text \<open>One occurrence on the event loop, as this call sees it.\<close>

fun stream_step ::
  "target \<Rightarrow> string list \<Rightarrow> SpawnOptions \<Rightarrow> occurrence \<Rightarrow> stream \<Rightarrow> stream" where
  "stream_step tgt args options (OutputNotification v) st =
     (if subscribed st then st\<lparr> subject := relay options v (subject st) \<rparr> else st)"
| "stream_step tgt args options (StderrData t) st = st\<lparr> stdErr := stdErr st @ t \<rparr>"
| "stream_step tgt args options (Event e) st =
     (let st' = st\<lparr> daemon := fire e (daemon st) \<rparr> in
      if start st \<noteq> Settled then
        (case connectionClosedDeferred (daemon st') of
           Some x \<Rightarrow> start_failed tgt args x st'
         | None \<Rightarrow> st')
      else st')"
| "stream_step tgt args options (Response r) st =
     (if start st = AwaitingRace then
        (case r of
           None \<Rightarrow> start_ok st
         | Some response \<Rightarrow>
             (if truthy_str (error response)
              then start_failed tgt args (DaemonError (text_of (error response))) st
              else start_ok st))
      else st)"
| "stream_step tgt args options (RequestFailed t) st =
     (if start st = AwaitingRace then start_failed tgt args (OtherError t) st else st)"
| "stream_step tgt args options TimerFired st =
     (if timer st
      then st\<lparr> timer := False, subscribed := False, subject := Subject_complete (subject st) \<rparr>
      else st)"

fun run_stream ::
  "target \<Rightarrow> string list \<Rightarrow> SpawnOptions \<Rightarrow> occurrence list \<Rightarrow> stream \<Rightarrow> stream" where
  "run_stream tgt args options [] st = st"
| "run_stream tgt args options (x # xs) st =
     run_stream tgt args options xs (stream_step tgt args options x st)"

text \<open>
  The result of a streaming call: the stream of the daemon, or whatever the fallback
  executor returned.
\<close>

datatype 'o observable_result = DaemonStream stream | FallbackStream 'o

fun fromFallback :: "exn + 'o \<Rightarrow> exn + 'o observable_result" where
  "fromFallback (Inl e) = Inl e"
| "fromFallback (Inr v) = Inr (FallbackStream v)"

definition execObservable ::
  "'o IPythonExecutionService \<Rightarrow> BasePythonDaemon \<Rightarrow> string list \<Rightarrow> SpawnOptions \<Rightarrow>
     (exn + 'o observable_result) \<times> action list" where
  "execObservable svc d args options =
     (if isAlive d then
        (case canExecFileUsingDaemon args options of
           Inl e \<Rightarrow> (Inl e, [])
         | Inr False \<Rightarrow>
             (fromFallback (svc_execObservable svc args options),
              [CallFallback (FallbackExecObservable args options)])
         | Inr True \<Rightarrow>
             (case args of
                [] \<Rightarrow> (Inl TypeError, [])
              | a # rest \<Rightarrow>
                  (case execAsObservable d (FileName a) rest options of
                     Inr st \<Rightarrow> (Inr (DaemonStream st), trace st)
                   | Inl ex \<Rightarrow>
                       (if isDaemonFailure ex
                        then (fromFallback (svc_execObservable svc args options),
                              [TraceWarning fallbackWarning,
                               CallFallback (FallbackExecObservable args options)])
                        else (Inl ex, [])))))
      else (fromFallback (svc_execObservable svc args options),
            [CallFallback (FallbackExecObservable args options)]))"

definition execModuleObservable ::
  "'o IPythonExecutionService \<Rightarrow> BasePythonDaemon \<Rightarrow> string \<Rightarrow> string list \<Rightarrow> SpawnOptions \<Rightarrow>
     (exn + 'o observable_result) \<times> action list" where
  "execModuleObservable svc d module args options =
     (if isAlive d \<and> canExecModuleUsingDaemon module args options then
        (case execAsObservable d (ModuleName module) args options of
           Inr st \<Rightarrow> (Inr (DaemonStream st), trace st)
         | Inl ex \<Rightarrow>
             (if isDaemonFailure ex
              then (fromFallback (svc_execModuleObservable svc module args options),
                    [TraceWarning fallbackWarning,
                     CallFallback (FallbackExecModuleObservable module args options)])
              else (Inl ex, [])))
      else (fromFallback (svc_execModuleObservable svc module args options),
            [CallFallback (FallbackExecModuleObservable module args options)]))"

section \<open>Observations and sample collaborators\<close>

text \<open>The calls made to the fallback executor, read off the actions of a call.\<close>

fun fallback_calls :: "action list \<Rightarrow> fallback_call list" where
  "fallback_calls [] = []"
| "fallback_calls (CallFallback c # xs) = c # fallback_calls xs"
| "fallback_calls (_ # xs) = fallback_calls xs"

text \<open>
  A freshly spawned process, and a fallback executor whose batch calls succeed with the
  output \<^verbatim>\<open>spawned\<close>: the collaborators of the concrete runs below.
\<close>

definition sample_proc :: ChildProcess where
  "sample_proc = \<lparr> exitCode = None, kill_calls = [] \<rparr>"

definition sample_service :: "unit IPythonExecutionService" where
  "sample_service =
     \<lparr> svc_exec = (\<lambda>_ _. Resolved \<lparr> error = None, stdout = ''spawned'', stderr = None \<rparr>),
       svc_execModule =
         (\<lambda>_ _ _. Resolved \<lparr> error = None, stdout = ''spawned'', stderr = None \<rparr>),
       svc_execObservable = (\<lambda>_ _. Inr ()),
       svc_execModuleObservable = (\<lambda>_ _ _. Inr ()) \<rparr>"

definition sample_request :: request where
  "sample_request = Request ''exec_file'' (FileName ''main.py'') [] JUndefined JUndefined"

text \<open>
  The invariant of the connection monitor: a daemon that has been disposed is not alive,
  and one that has not been disposed still has its three listeners registered.
\<close>

definition wired :: "BasePythonDaemon \<Rightarrow> bool" where
  "wired d =
     (if disposed d then \<not> isAlive d
      else disposables d = [(onClose, 0), (onDispose, 0), (onError, 0)])"

section \<open>Properties\<close>

lemma indexOf_nonneg_iff: "indexOf xs x \<ge> 0 \<longleftrightarrow> x \<in> set xs"
  by (induction xs) (auto simp: Let_def)

lemma endsWith_iff_suffix: "endsWith s t \<longleftrightarrow> suffix t s"
proof
  assume "endsWith s t"
  then have "s = take (length s - length t) s @ t"
    by (metis append_take_drop_id endsWith_def)
  then show "suffix t s"
    by (metis suffixI)
next
  assume "suffix t s"
  then obtain p where "s = p @ t"
    by (auto simp: suffix_def)
  then show "endsWith s t"
    by (simp add: endsWith_def)
qed

lemma areOptionsSupported_iff:
  "areOptionsSupported options \<longleftrightarrow>
     set (Object_keys options) \<subseteq> set daemonSupportedSpawnOptions"
  by (auto simp: areOptionsSupported_def list_all_iff indexOf_nonneg_iff)

subsection \<open>Sample runs\<close>

lemma sample_alive: "isAlive (create False sample_proc)"
  by (simp add: isAlive_def create_def)

lemma sample_gate:
  "canExecFileUsingDaemon [''main.py'', ''--flag''] [] = Inr True"
  "canExecFileUsingDaemon [''main.py''] [(''mergeStdOutErr'', JBool True)] = Inr True"
  "canExecFileUsingDaemon [''main.py''] [(''throwOnStdErr'', JBool True)] = Inr True"
  "canExecFileUsingDaemon [''main.py'']
     [(''throwOnStdErr'', JBool True), (''mergeStdOutErr'', JBool True)] = Inr True"
  "canExecModuleUsingDaemon ''pip'' [''list''] [(''throwOnStdErr'', JBool True)]"
  by (simp_all add: canExecModuleUsingDaemon_def areOptionsSupported_def Object_keys_def
      daemonSupportedSpawnOptions_def endsWith_def toLowerCase_def toLowerCaseChar_def)

lemma sample_send:
  "sendRequest (create False sample_proc) req [Response (Some r)] =
     (Resolved (Some r), create False sample_proc, [ConnectionSendRequest req])"
  by (simp add: sendRequest_def isAlive_def create_def sample_proc_def)

subsection \<open>The capability gate\<close>

text \<open>
  C6. \<^verbatim>\<open>areOptionsSupported\<close> returns true exactly when every key present in the options
  object belongs to the allow-list cwd, env, throwOnStdErr, token, encoding,
  mergeStdOutErr. The result depends on the set of keys only, so neither their order nor
  their number matters.
\<close>

theorem areOptionsSupported_allow_list:
  "areOptionsSupported options \<longleftrightarrow>
     (\<forall>k \<in> set (Object_keys options).
        k \<in> {''cwd'', ''env'', ''throwOnStdErr'', ''token'', ''encoding'', ''mergeStdOutErr''})"
  by (simp only: areOptionsSupported_iff daemonSupportedSpawnOptions_def list.set subset_eq)

theorem areOptionsSupported_allow_list_witness:
  "areOptionsSupported [(''env'', JObj ''e''), (''cwd'', JStr ''/tmp'')]
   \<and> areOptionsSupported [(''cwd'', JStr ''/tmp''), (''env'', JObj ''e'')]
   \<and> \<not> areOptionsSupported [(''cwd'', JStr ''/tmp''), (''shell'', JBool True)]
   \<and> \<not> areOptionsSupported
         [(''shell'', JBool True), (''cwd'', JStr ''/tmp''), (''env'', JObj ''e'')]"
  using areOptionsSupported_allow_list [of "[(''env'', JObj ''e''), (''cwd'', JStr ''/tmp'')]"]
    areOptionsSupported_allow_list [of "[(''cwd'', JStr ''/tmp''), (''env'', JObj ''e'')]"]
    areOptionsSupported_allow_list [of "[(''cwd'', JStr ''/tmp''), (''shell'', JBool True)]"]
    areOptionsSupported_allow_list
      [of "[(''shell'', JBool True), (''cwd'', JStr ''/tmp''), (''env'', JObj ''e'')]"]
  by (simp add: Object_keys_def)

lemma toLowerCase_examples:
  "toLowerCase ''Main.PY'' = ''main.py''"
  "toLowerCase ''notes.txt'' = ''notes.txt''"
  by (simp_all add: toLowerCase_def toLowerCaseChar_def)

text \<open>
  C7. For a non-empty argument list whose first element, lower-cased, does not end in
  \<^verbatim>\<open>.py\<close>, \<^verbatim>\<open>canExecFileUsingDaemon\<close> returns false whatever the options are; it returns
  true exactly when the suffix matches and every key of the options is allow-listed.
\<close>

theorem canExecFileUsingDaemon_suffix:
  "(\<not> suffix ''.py'' (toLowerCase a) \<longrightarrow>
      canExecFileUsingDaemon (a # rest) options = Inr False)
   \<and> (canExecFileUsingDaemon (a # rest) options = Inr True \<longleftrightarrow>
        suffix ''.py'' (toLowerCase a)
        \<and> (\<forall>k \<in> set (Object_keys options). k \<in> set daemonSupportedSpawnOptions))"
  by (auto simp: endsWith_iff_suffix areOptionsSupported_iff)

theorem canExecFileUsingDaemon_suffix_witness:
  "\<not> suffix ''.py'' (toLowerCase ''notes.txt'')
   \<and> canExecFileUsingDaemon [''notes.txt'', ''-v''] [(''cwd'', JStr ''/tmp'')] = Inr False
   \<and> canExecFileUsingDaemon [''Main.PY'', ''-v''] [(''cwd'', JStr ''/tmp'')] = Inr True
   \<and> canExecFileUsingDaemon [''Main.PY'', ''-v''] [(''shell'', JBool True)] \<noteq> Inr True"
  using canExecFileUsingDaemon_suffix [of "''notes.txt''" "[''-v'']" "[(''cwd'', JStr ''/tmp'')]"]
    canExecFileUsingDaemon_suffix [of "''Main.PY''" "[''-v'']" "[(''cwd'', JStr ''/tmp'')]"]
    canExecFileUsingDaemon_suffix [of "''Main.PY''" "[''-v'']" "[(''shell'', JBool True)]"]
  by (simp add: toLowerCase_examples suffix_def Object_keys_def daemonSupportedSpawnOptions_def
      del: canExecFileUsingDaemon.simps)

text \<open>
  C10. With an empty argument list and a daemon that is alive, the gate reads
  \<^verbatim>\<open>args[0].toLowerCase()\<close> before anything else: \<^verbatim>\<open>exec\<close> rejects with the runtime's type
  error and \<^verbatim>\<open>execObservable\<close> throws it; nothing is sent to the daemon and the fallback
  executor is not called.
\<close>

theorem exec_empty_args_TypeError:
  assumes "isAlive d"
  shows "exec eol svc d [] options sched = (Rejected TypeError, d, [])
    \<and> execObservable svc d [] options = (Inl TypeError, [])"
  using assms by (simp add: exec_def execObservable_def)

theorem exec_empty_args_TypeError_witness:
  "isAlive (create False sample_proc)
   \<and> exec [CHR 0x0A] sample_service (create False sample_proc) [] [(''cwd'', JStr ''/tmp'')]
        [Response (Some \<lparr> error = None, stdout = ''hi'', stderr = None \<rparr>)] =
       (Rejected TypeError, create False sample_proc, [])
   \<and> execObservable sample_service (create False sample_proc) [] [] = (Inl TypeError, [])"
proof -
  have h: "isAlive (create False sample_proc)"
    by (simp add: isAlive_def create_def)
  show ?thesis
    using h exec_empty_args_TypeError [OF h, where svc = sample_service and eol = "[CHR 0x0A]"
        and options = "[(''cwd'', JStr ''/tmp'')]"
        and sched = "[Response (Some \<lparr> error = None, stdout = ''hi'', stderr = None \<rparr>)]"]
      exec_empty_args_TypeError [OF h, where svc = sample_service and options = "[]"]
    by simp
qed

subsection \<open>The closed state\<close>

lemma fire_not_alive: "\<not> isAlive d \<Longrightarrow> \<not> isAlive (fire e d)"
  by (cases e) (simp_all add: isAlive_def logConnectionStatus_def dispose_def kill_def Let_def)

lemma run_not_alive: "\<not> isAlive d \<Longrightarrow> \<not> isAlive (run es d)"
  by (induction es arbitrary: d) (simp_all add: fire_not_alive)

lemma wired_create: "wired (create w p)"
  by (simp add: wired_def create_def)

lemma wired_fire: "wired d \<Longrightarrow> wired (fire e d)"
  by (cases e)
    (auto simp add: wired_def isAlive_def logConnectionStatus_def dispose_def kill_def Let_def
       split: if_splits)

lemma wired_run: "wired d \<Longrightarrow> wired (run es d)"
  by (induction es arbitrary: d) (simp_all add: wired_fire)

lemma fire_closes: "wired d \<Longrightarrow> \<not> isAlive (fire e d)"
  by (cases e)
    (auto simp add: wired_def isAlive_def logConnectionStatus_def dispose_def kill_def Let_def
       registered_def split: if_splits)

lemma exec_not_alive:
  "\<not> isAlive d \<Longrightarrow> exec eol svc d args options sched =
     (svc_exec svc args options, d, [CallFallback (FallbackExec args options)])"
  by (simp add: exec_def)

lemma execModule_not_alive:
  "\<not> isAlive d \<Longrightarrow> execModule eol svc d name args options sched =
     (svc_execModule svc name args options, d,
      [CallFallback (FallbackExecModule name args options)])"
  by (simp add: execModule_def)

lemma execObservable_not_alive:
  "\<not> isAlive d \<Longrightarrow> execObservable svc d args options =
     (fromFallback (svc_execObservable svc args options),
      [CallFallback (FallbackExecObservable args options)])"
  by (simp add: execObservable_def)

lemma execModuleObservable_not_alive:
  "\<not> isAlive d \<Longrightarrow> execModuleObservable svc d name args options =
     (fromFallback (svc_execModuleObservable svc name args options),
      [CallFallback (FallbackExecModuleObservable name args options)])"
  by (simp add: execModuleObservable_def)

text \<open>
  C4. Take any daemon reached from its construction, let any close trigger fire (the
  connection closes, is disposed or errors, the process exits, or \<^verbatim>\<open>dispose()\<close> is called),
  and let anything happen afterwards: \<^verbatim>\<open>isAlive\<close> is false, and each of \<^verbatim>\<open>exec\<close>,
  \<^verbatim>\<open>execModule\<close>, \<^verbatim>\<open>execObservable\<close> and \<^verbatim>\<open>execModuleObservable\<close> returns what the
  fallback executor returns for the same arguments, its only action being that one call
  (no request is sent to the daemon).
\<close>

theorem closed_is_permanent:
  assumes "d = run post (fire e (run pre (create w p)))"
  shows "\<not> isAlive d
    \<and> exec eol svc d args options sched =
        (svc_exec svc args options, d, [CallFallback (FallbackExec args options)])
    \<and> execModule eol svc d name args options sched =
        (svc_execModule svc name args options, d,
         [CallFallback (FallbackExecModule name args options)])
    \<and> execObservable svc d args options =
        (fromFallback (svc_execObservable svc args options),
         [CallFallback (FallbackExecObservable args options)])
    \<and> execModuleObservable svc d name args options =
        (fromFallback (svc_execModuleObservable svc name args options),
         [CallFallback (FallbackExecModuleObservable name args options)])"
proof -
  have "wired (run pre (create w p))"
    by (simp add: wired_run wired_create)
  then have "\<not> isAlive (fire e (run pre (create w p)))"
    by (rule fire_closes)
  then have dead: "\<not> isAlive d"
    unfolding assms by (rule run_not_alive)
  show ?thesis
    using dead exec_not_alive [OF dead] execModule_not_alive [OF dead]
      execObservable_not_alive [OF dead] execModuleObservable_not_alive [OF dead]
    by blast
qed

theorem closed_is_permanent_witness:
  "\<not> isAlive (run [DisposeCall] (fire (ProcessExit (Some 0)) (run [] (create False sample_proc))))
   \<and> fst (exec [CHR 0x0A] sample_service
        (run [DisposeCall] (fire (ProcessExit (Some 0)) (run [] (create False sample_proc))))
        [''main.py''] [] [Response None]) =
       Resolved \<lparr> error = None, stdout = ''spawned'', stderr = None \<rparr>
   \<and> snd (snd (exec [CHR 0x0A] sample_service
        (run [DisposeCall] (fire (ProcessExit (Some 0)) (run [] (create False sample_proc))))
        [''main.py''] [] [Response None])) =
       [CallFallback (FallbackExec [''main.py''] [])]"
  using closed_is_permanent [OF refl, where post = "[DisposeCall]" and e = "ProcessExit (Some 0)"
      and pre = "[]" and w = False and p = sample_proc and svc = sample_service
      and eol = "[CHR 0x0A]" and args = "[''main.py'']" and options = "[]"
      and sched = "[Response None]"]
  by (simp add: sample_service_def del: run.simps fire.simps)

subsection \<open>Disposal\<close>

lemma dispose_first:
  "\<not> disposed d \<Longrightarrow>
     dispose d = d\<lparr> connectionClosedMessage := ''Daemon disposed from dispose()'',
                    disposed := True,
                    disposables := map (\<lambda>(l, n). (l, Suc n)) (disposables d),
                    proc := (proc d)\<lparr>kill_calls := kill_calls (proc d) @
                              [if isWindows d then None else Some ''SIGKILL'']\<rparr> \<rparr>"
  by (simp add: dispose_def kill_def Let_def)

lemma dispose_again:
  "disposed d \<Longrightarrow> connectionClosedMessage d = ''Daemon disposed from dispose()'' \<Longrightarrow>
     dispose d = d"
  by (simp add: dispose_def)

lemma dispose_not_alive: "\<not> isAlive (dispose d)"
  by (simp add: dispose_def isAlive_def Let_def kill_def)

lemma fire_after_dispose:
  assumes "disposed d" "connectionClosedMessage d = ''Daemon disposed from dispose()''"
  shows "disposed (fire e d)"
    and "connectionClosedMessage (fire e d) = ''Daemon disposed from dispose()''"
    and "kill_calls (proc (fire e d)) = kill_calls (proc d)"
    and "disposables (fire e d) = disposables d"
    and "connectionClosedDeferred (fire e d) = connectionClosedDeferred d"
  using assms by (cases e; simp add: logConnectionStatus_def dispose_again)+

lemma run_after_dispose:
  assumes "disposed d" "connectionClosedMessage d = ''Daemon disposed from dispose()''"
  shows "disposed (run es d)
    \<and> connectionClosedMessage (run es d) = ''Daemon disposed from dispose()''
    \<and> kill_calls (proc (run es d)) = kill_calls (proc d)
    \<and> disposables (run es d) = disposables d
    \<and> connectionClosedDeferred (run es d) = connectionClosedDeferred d"
  using assms
proof (induction es arbitrary: d)
  case Nil
  then show ?case by simp
next
  case (Cons e es)
  from Cons.IH [OF fire_after_dispose(1,2) [OF Cons.prems]]
  show ?case
    by (simp add: fire_after_dispose(3,4,5) [OF Cons.prems])
qed

text \<open>
  C9. Let \<^verbatim>\<open>dispose()\<close> be called on a daemon that has not been disposed, let anything
  happen (further \<^verbatim>\<open>dispose()\<close> calls included; the calls of several owners are serialised
  by the event loop), and let \<^verbatim>\<open>dispose()\<close> be called again. The process has received
  exactly one more \<^verbatim>\<open>kill\<close> call than before the first call (\<^verbatim>\<open>SIGKILL\<close>, or the default
  signal on Windows), each owned subscription has been disposed exactly once, the later
  call changes nothing at all (the closed reason it writes is the one already there), and
  \<^verbatim>\<open>isAlive\<close> is false after every \<^verbatim>\<open>dispose()\<close> call.
\<close>

theorem dispose_twice_kills_once:
  assumes "\<not> disposed d"
  shows "kill_calls (proc (dispose (run evs (dispose d)))) =
           kill_calls (proc d) @ [if isWindows d then None else Some ''SIGKILL'']
    \<and> disposables (dispose (run evs (dispose d))) =
           map (\<lambda>(l, n). (l, Suc n)) (disposables d)
    \<and> dispose (run evs (dispose d)) = run evs (dispose d)
    \<and> \<not> isAlive (dispose d')
    \<and> \<not> isAlive (dispose (run evs (dispose d)))"
proof -
  let ?d1 = "dispose d"
  have d1: "disposed ?d1" "connectionClosedMessage ?d1 = ''Daemon disposed from dispose()''"
    "kill_calls (proc ?d1) =
       kill_calls (proc d) @ [if isWindows d then None else Some ''SIGKILL'']"
    "disposables ?d1 = map (\<lambda>(l, n). (l, Suc n)) (disposables d)"
    using assms by (simp_all add: dispose_first)
  note r = run_after_dispose [OF d1(1,2), of evs]
  have again: "dispose (run evs ?d1) = run evs ?d1"
    using r by (simp add: dispose_again)
  have dead: "\<not> isAlive (run evs ?d1)"
    using r by (simp add: isAlive_def)
  show ?thesis
    using r by (simp add: again d1(3,4) dispose_not_alive dead)
qed

theorem dispose_twice_kills_once_witness:
  "\<not> disposed (create False sample_proc)
   \<and> kill_calls (proc (dispose (run [ProcessExit None, DisposeCall, ConnectionClose]
        (dispose (create False sample_proc))))) = [Some ''SIGKILL'']
   \<and> disposables (dispose (run [ProcessExit None, DisposeCall, ConnectionClose]
        (dispose (create False sample_proc)))) =
        [(onClose, 1), (onDispose, 1), (onError, 1)]"
proof -
  have h: "\<not> disposed (create False sample_proc)"
    by (simp add: create_def)
  have k: "kill_calls (proc (create False sample_proc)) @
             [if isWindows (create False sample_proc) then None else Some ''SIGKILL''] =
           [Some ''SIGKILL'']"
    by (simp add: create_def sample_proc_def)
  have m: "map (\<lambda>(l, n). (l, Suc n)) (disposables (create False sample_proc)) =
           [(onClose, 1), (onDispose, 1), (onError, 1)]"
    by (simp add: create_def)
  note t = dispose_twice_kills_once
    [OF h, of "[ProcessExit None, DisposeCall, ConnectionClose]", unfolded k m]
  show ?thesis
    using h t by blast
qed

lemma race_events_after_dispose:
  assumes "disposed d" "connectionClosedMessage d = ''Daemon disposed from dispose()''"
    "connectionClosedDeferred d = None"
  shows "race d (map Event evs) = (Pending, run evs d)"
  using assms
proof (induction evs arbitrary: d)
  case Nil
  then show ?case by simp
next
  case (Cons e es)
  note f = fire_after_dispose [OF Cons.prems(1,2), of e]
  have "connectionClosedDeferred (fire e d) = None"
    using f(5) Cons.prems(3) by simp
  then show ?case
    using Cons.IH [OF f(1,2)] by simp
qed

lemma await_events_after_dispose:
  assumes "disposed d" "connectionClosedMessage d = ''Daemon disposed from dispose()''"
    "connectionClosedDeferred d = None"
  shows "await_closed d (map Event evs) = (Pending, run evs d)"
  using assms
proof (induction evs arbitrary: d)
  case Nil
  then show ?case by simp
next
  case (Cons e es)
  note f = fire_after_dispose [OF Cons.prems(1,2), of e]
  have "connectionClosedDeferred (fire e d) = None"
    using f(5) Cons.prems(3) by simp
  then show ?case
    using Cons.IH [OF f(1,2)] by simp
qed

lemma dispose_create:
  "disposed (dispose (create w p))"
  "connectionClosedMessage (dispose (create w p)) = ''Daemon disposed from dispose()''"
  "connectionClosedDeferred (dispose (create w p)) = None"
  by (simp_all add: dispose_first create_def)

text \<open>
  C2, as the code behaves. \<^verbatim>\<open>dispose()\<close> sets the closed reason and the \<^verbatim>\<open>disposed\<close> flag
  but does not reject \<^verbatim>\<open>connectionClosedDeferred\<close>, and once the flag is set
  \<^verbatim>\<open>logConnectionStatus\<close> does nothing. So on a daemon disposed while alive, whatever
  daemon events follow (the exit of the killed process among them): a request that was
  pending when \<^verbatim>\<open>dispose()\<close> was called is never settled by the closed-state promise, a
  request attempted afterwards is handed that promise and never settles, and the promise
  stays pending.
\<close>

theorem dispose_leaves_requests_pending:
  "fst (sendRequest (create w p) req (Event DisposeCall # map Event evs)) = Pending
   \<and> fst (sendRequest (dispose (create w p)) req (map Event evs)) = Pending
   \<and> connectionClosedDeferred (run evs (dispose (create w p))) = None"
proof -
  note dc = dispose_create [of w p]
  have a: "race (dispose (create w p)) (map Event evs) =
             (Pending, run evs (dispose (create w p)))"
    by (rule race_events_after_dispose [OF dc])
  have b: "await_closed (dispose (create w p)) (map Event evs) =
             (Pending, run evs (dispose (create w p)))"
    by (rule await_events_after_dispose [OF dc])
  have c: "connectionClosedDeferred (create w p) = None"
    by (simp add: create_def)
  have 1: "fst (sendRequest (create w p) req (Event DisposeCall # map Event evs)) = Pending"
    by (simp add: sendRequest_def Let_def c dc a b)
  have 2: "fst (sendRequest (dispose (create w p)) req (map Event evs)) = Pending"
    by (simp add: sendRequest_def Let_def dc b dispose_not_alive)
  have 3: "connectionClosedDeferred (run evs (dispose (create w p))) = None"
    using run_after_dispose [OF dc(1,2), of evs] dc(3) by simp
  from 1 2 3 show ?thesis by simp
qed

theorem dispose_leaves_requests_pending_witness:
  "fst (sendRequest (create False sample_proc) sample_request
          [Event DisposeCall, Event (ProcessExit None), Event ConnectionClose]) = Pending
   \<and> fst (sendRequest (dispose (create False sample_proc)) sample_request
          [Event (ProcessExit None), Event ConnectionClose]) = Pending"
  using dispose_leaves_requests_pending
    [of False sample_proc sample_request "[ProcessExit None, ConnectionClose]"]
  by (simp del: run.simps fire.simps)

subsection \<open>The race of a request against the closed-state promise\<close>

lemma race_pending_append:
  "race d pre = (Pending, d1) \<Longrightarrow> race d (pre @ rest) = race d1 rest"
  by (induction d pre rule: race.induct) (auto split: option.splits)

lemma race_pending_deferred:
  "connectionClosedDeferred d = None \<Longrightarrow> race d pre = (Pending, d1) \<Longrightarrow>
     connectionClosedDeferred d1 = None"
  by (induction d pre rule: race.induct) (auto split: option.splits)

lemma fire_rejects:
  "connectionClosedDeferred d = None \<Longrightarrow> connectionClosedDeferred (fire e d) = Some x \<Longrightarrow>
     x = ConnectionClosedError (connectionClosedMessage (fire e d))"
  by (cases e)
    (auto simp: logConnectionStatus_def dispose_def kill_def Let_def split: if_splits)

text \<open>
  C3. A request dispatched while the daemon is alive (and no exit code has been seen) is
  sent on the connection and raced against the closed-state promise. If the request is
  still pending after the occurrences \<open>pre\<close> and the next event rejects the closed-state
  promise, the call is rejected with that \<^verbatim>\<open>ConnectionClosedError\<close>, whatever comes later
  (\<open>post\<close>, the daemon's late answer included).
\<close>

theorem request_raced_against_closed:
  assumes "isAlive d" and "exitCode (proc d) = None"
    and "sendRequest d req pre = (Pending, d1, log)"
    and "connectionClosedDeferred (fire e d1) = Some x"
  shows "sendRequest d req (pre @ Event e # post) = (Rejected x, fire e d1, log)
    \<and> x = ConnectionClosedError (connectionClosedMessage (fire e d1))
    \<and> log = [ConnectionSendRequest req]"
proof -
  from assms(1-3) have none: "connectionClosedDeferred d = None"
    by (auto simp: sendRequest_def split: option.splits)
  with assms(1-3) have r: "race d pre = (Pending, d1)" and l: "log = [ConnectionSendRequest req]"
    by (auto simp: sendRequest_def split: prod.splits)
  have d1: "connectionClosedDeferred d1 = None"
    by (rule race_pending_deferred [OF none r])
  have x: "x = ConnectionClosedError (connectionClosedMessage (fire e d1))"
    by (rule fire_rejects [OF d1 assms(4)])
  have "race d (pre @ Event e # post) = (Rejected x, fire e d1)"
    by (simp add: race_pending_append [OF r] assms(4))
  with assms(1,2) none l x show ?thesis
    by (simp add: sendRequest_def)
qed

theorem request_raced_against_closed_witness:
  "isAlive (create False sample_proc)
   \<and> exitCode (proc (create False sample_proc)) = None
   \<and> sendRequest (create False sample_proc) sample_request
        [OutputNotification \<lparr> source = Stdout, out = ''hi'' \<rparr>] =
       (Pending, create False sample_proc, [ConnectionSendRequest sample_request])
   \<and> connectionClosedDeferred (fire ConnectionClose (create False sample_proc)) =
       Some (ConnectionClosedError ''Daemon Connection Closed'')
   \<and> fst (sendRequest (create False sample_proc) sample_request
        ([OutputNotification \<lparr> source = Stdout, out = ''hi'' \<rparr>] @ Event ConnectionClose #
         [Response (Some \<lparr> error = None, stdout = ''late'', stderr = None \<rparr>)])) =
       Rejected (ConnectionClosedError ''Daemon Connection Closed'')"
proof -
  have h1: "isAlive (create False sample_proc)"
    by (simp add: isAlive_def create_def)
  have h2: "exitCode (proc (create False sample_proc)) = None"
    by (simp add: create_def sample_proc_def)
  have h3: "sendRequest (create False sample_proc) sample_request
        [OutputNotification \<lparr> source = Stdout, out = ''hi'' \<rparr>] =
       (Pending, create False sample_proc, [ConnectionSendRequest sample_request])"
    by (simp add: sendRequest_def isAlive_def create_def sample_proc_def)
  have h4: "connectionClosedDeferred (fire ConnectionClose (create False sample_proc)) =
       Some (ConnectionClosedError ''Daemon Connection Closed'')"
    by (simp add: create_def registered_def logConnectionStatus_def Let_def)
  show ?thesis
    using h1 h2 h3 h4
      request_raced_against_closed [OF h1 h2 h3 h4,
        of "[Response (Some \<lparr> error = None, stdout = ''late'', stderr = None \<rparr>)]"]
    by simp
qed

subsection \<open>Fallback after a daemon failure\<close>

lemma fallback_calls_append:
  "fallback_calls (xs @ ys) = fallback_calls xs @ fallback_calls ys"
  by (induction xs rule: fallback_calls.induct) simp_all

lemma sendRequest_no_fallback:
  "sendRequest d req sched = (s, d', log) \<Longrightarrow> fallback_calls log = []"
  by (auto simp: sendRequest_def Let_def split: if_splits option.splits prod.splits)

lemma execFileWithDaemon_no_fallback:
  "execFileWithDaemon eol d a rest options sched = (s, d', log) \<Longrightarrow> fallback_calls log = []"
  by (auto simp: execFileWithDaemon_def split: prod.splits dest: sendRequest_no_fallback)

lemma execModuleWithDaemon_no_fallback:
  "execModuleWithDaemon eol d name args options sched = (s, d', log) \<Longrightarrow>
     fallback_calls log = []"
  by (auto simp: execModuleWithDaemon_def split: prod.splits dest: sendRequest_no_fallback)

lemma isDaemonFailure_iff:
  "isDaemonFailure ex \<longleftrightarrow> (\<exists>m. ex = ConnectionClosedError m \<or> ex = DaemonError m)"
  by (cases ex) simp_all

lemma exec_after_rejection:
  assumes "isAlive d" "canExecFileUsingDaemon (a # rest) options = Inr True"
    "execFileWithDaemon eol d a rest options sched = (Rejected ex, d', log)"
  shows "exec eol svc d (a # rest) options sched =
     (if isDaemonFailure ex
      then (svc_exec svc (a # rest) options, d',
            log @ [TraceWarning fallbackWarning, CallFallback (FallbackExec (a # rest) options)])
      else (Rejected ex, d', log))"
  using assms by (simp add: exec_def del: canExecFileUsingDaemon.simps)

lemma execModule_after_rejection:
  assumes "isAlive d" "canExecModuleUsingDaemon name args options"
    "execModuleWithDaemon eol d name args options sched = (Rejected ex, d', log)"
  shows "execModule eol svc d name args options sched =
     (if isDaemonFailure ex
      then (svc_execModule svc name args options, d',
            log @ [TraceWarning fallbackWarning,
                   CallFallback (FallbackExecModule name args options)])
      else (Rejected ex, d', log))"
  using assms by (simp add: execModule_def)

text \<open>
  C5. Let the daemon be alive and the call be daemon-eligible, and let the attempt
  through the daemon fail with \<open>ex\<close>. If \<open>ex\<close> is a \<^verbatim>\<open>ConnectionClosedError\<close> or a
  \<^verbatim>\<open>DaemonError\<close>, the call returns what the fallback executor's equivalent call returns,
  and that executor is called exactly once, with the same arguments and options. If \<open>ex\<close>
  is of any other class (\<^verbatim>\<open>StdErrError\<close> included), the call rejects with \<open>ex\<close> itself and
  the fallback executor is not called. This holds for \<^verbatim>\<open>exec\<close> and for \<^verbatim>\<open>execModule\<close>.
\<close>

theorem daemon_failure_falls_back_once:
  assumes "isAlive d"
  shows "(canExecFileUsingDaemon (a # rest) options = Inr True \<longrightarrow>
          execFileWithDaemon eol d a rest options sched = (Rejected ex, d', log) \<longrightarrow>
          (if \<exists>m. ex = ConnectionClosedError m \<or> ex = DaemonError m
           then fst (exec eol svc d (a # rest) options sched) = svc_exec svc (a # rest) options
              \<and> fallback_calls (snd (snd (exec eol svc d (a # rest) options sched))) =
                  [FallbackExec (a # rest) options]
           else fst (exec eol svc d (a # rest) options sched) = Rejected ex
              \<and> fallback_calls (snd (snd (exec eol svc d (a # rest) options sched))) = []))
    \<and> (canExecModuleUsingDaemon name args options \<longrightarrow>
          execModuleWithDaemon eol d name args options sched = (Rejected ex, d', log) \<longrightarrow>
          (if \<exists>m. ex = ConnectionClosedError m \<or> ex = DaemonError m
           then fst (execModule eol svc d name args options sched) =
                  svc_execModule svc name args options
              \<and> fallback_calls (snd (snd (execModule eol svc d name args options sched))) =
                  [FallbackExecModule name args options]
           else fst (execModule eol svc d name args options sched) = Rejected ex
              \<and> fallback_calls (snd (snd (execModule eol svc d name args options sched))) =
                  []))"
proof (intro conjI impI)
  assume g: "canExecFileUsingDaemon (a # rest) options = Inr True"
    and r: "execFileWithDaemon eol d a rest options sched = (Rejected ex, d', log)"
  have nf: "fallback_calls log = []"
    by (rule execFileWithDaemon_no_fallback [OF r])
  show "if \<exists>m. ex = ConnectionClosedError m \<or> ex = DaemonError m
           then fst (exec eol svc d (a # rest) options sched) = svc_exec svc (a # rest) options
              \<and> fallback_calls (snd (snd (exec eol svc d (a # rest) options sched))) =
                  [FallbackExec (a # rest) options]
           else fst (exec eol svc d (a # rest) options sched) = Rejected ex
              \<and> fallback_calls (snd (snd (exec eol svc d (a # rest) options sched))) = []"
    unfolding exec_after_rejection [OF assms g r] isDaemonFailure_iff [symmetric]
    by (simp add: fallback_calls_append nf)
next
  assume g: "canExecModuleUsingDaemon name args options"
    and r: "execModuleWithDaemon eol d name args options sched = (Rejected ex, d', log)"
  have nf: "fallback_calls log = []"
    by (rule execModuleWithDaemon_no_fallback [OF r])
  show "if \<exists>m. ex = ConnectionClosedError m \<or> ex = DaemonError m
           then fst (execModule eol svc d name args options sched) =
                  svc_execModule svc name args options
              \<and> fallback_calls (snd (snd (execModule eol svc d name args options sched))) =
                  [FallbackExecModule name args options]
           else fst (execModule eol svc d name args options sched) = Rejected ex
              \<and> fallback_calls (snd (snd (execModule eol svc d name args options sched))) =
                  []"
    unfolding execModule_after_rejection [OF assms g r] isDaemonFailure_iff [symmetric]
    by (simp add: fallback_calls_append nf)
qed

lemma sample_exit:
  "execFileWithDaemon [CHR 0x0A] (create False sample_proc) ''main.py'' [''--flag''] []
     [Event (ProcessExit None)] =
   (Rejected (ConnectionClosedError ''Daemon Processed died with exit code''),
    fire (ProcessExit None) (create False sample_proc),
    [ConnectionSendRequest
       (Request ''exec_file'' (FileName ''main.py'') [''--flag''] JUndefined JUndefined)])"
  by (simp add: execFileWithDaemon_def sendRequest_def processAwaited_def isAlive_def
      create_def sample_proc_def get_prop_def logConnectionStatus_def Let_def)

lemma sample_stderr:
  "execModuleWithDaemon [CHR 0x0A] (create False sample_proc) ''pip'' [''list'']
     [(''throwOnStdErr'', JBool True)]
     [Response (Some \<lparr> error = None, stdout = ''pkg'', stderr = Some ''warn'' \<rparr>)] =
   (Rejected (StdErrError ''warn''), create False sample_proc,
    [ConnectionSendRequest
       (Request ''exec_module'' (ModuleName ''pip'') [''list''] JUndefined JUndefined)])"
  by (simp add: execModuleWithDaemon_def sendRequest_def processAwaited_def processResponse_def
      isAlive_def create_def sample_proc_def get_prop_def)

theorem daemon_failure_falls_back_once_witness:
  "isAlive (create False sample_proc)
   \<and> canExecFileUsingDaemon [''main.py'', ''--flag''] [] = Inr True
   \<and> fst (execFileWithDaemon [CHR 0x0A] (create False sample_proc) ''main.py'' [''--flag''] []
        [Event (ProcessExit None)]) =
       Rejected (ConnectionClosedError ''Daemon Processed died with exit code'')
   \<and> fst (exec [CHR 0x0A] sample_service (create False sample_proc) [''main.py'', ''--flag''] []
        [Event (ProcessExit None)]) =
       Resolved \<lparr> error = None, stdout = ''spawned'', stderr = None \<rparr>
   \<and> fallback_calls (snd (snd (exec [CHR 0x0A] sample_service (create False sample_proc)
        [''main.py'', ''--flag''] [] [Event (ProcessExit None)]))) =
       [FallbackExec [''main.py'', ''--flag''] []]
   \<and> canExecModuleUsingDaemon ''pip'' [''list''] [(''throwOnStdErr'', JBool True)]
   \<and> fst (execModule [CHR 0x0A] sample_service (create False sample_proc) ''pip'' [''list'']
        [(''throwOnStdErr'', JBool True)]
        [Response (Some \<lparr> error = None, stdout = ''pkg'', stderr = Some ''warn'' \<rparr>)]) =
       Rejected (StdErrError ''warn'')
   \<and> fallback_calls (snd (snd (execModule [CHR 0x0A] sample_service (create False sample_proc)
        ''pip'' [''list''] [(''throwOnStdErr'', JBool True)]
        [Response (Some \<lparr> error = None, stdout = ''pkg'', stderr = Some ''warn'' \<rparr>)]))) = []"
  using sample_alive sample_gate(1,5)
    daemon_failure_falls_back_once [OF sample_alive,
      where a = "''main.py''" and rest = "[''--flag'']" and options = "[]"
        and eol = "[CHR 0x0A]" and sched = "[Event (ProcessExit None)]"
        and svc = sample_service, THEN conjunct1, rule_format, OF sample_gate(1) sample_exit]
    daemon_failure_falls_back_once [OF sample_alive,
      where name = "''pip''" and args = "[''list'']"
        and options = "[(''throwOnStdErr'', JBool True)]" and eol = "[CHR 0x0A]"
        and sched = "[Response (Some \<lparr> error = None, stdout = ''pkg'', stderr = Some ''warn'' \<rparr>)]"
        and svc = sample_service, THEN conjunct2, rule_format, OF sample_gate(5) sample_stderr]
  by (simp add: sample_exit sample_service_def del: canExecFileUsingDaemon.simps)

subsection \<open>Post-processing of a batch response\<close>

lemma exec_after_response:
  assumes "isAlive d" "canExecFileUsingDaemon (a # rest) options = Inr True"
    "sendRequest d
       (Request ''exec_file'' (FileName a) rest
          (get_prop options ''cwd'') (get_prop options ''env'')) sched =
     (Resolved (Some r), d', log)"
  shows "exec eol svc d (a # rest) options sched =
     (case processResponse eol r options of
        Inl ex \<Rightarrow>
          (if isDaemonFailure ex
           then (svc_exec svc (a # rest) options, d',
                 log @ [TraceWarning fallbackWarning,
                        CallFallback (FallbackExec (a # rest) options)])
           else (Rejected ex, d', log))
      | Inr res \<Rightarrow> (Resolved res, d', log))"
  using assms
  by (simp add: exec_def execFileWithDaemon_def processAwaited_def
      split: sum.splits del: canExecFileUsingDaemon.simps)

lemma execModule_after_response:
  assumes "isAlive d" "canExecModuleUsingDaemon name args options"
    "sendRequest d
       (Request ''exec_module'' (ModuleName name) args
          (get_prop options ''cwd'') (get_prop options ''env'')) sched =
     (Resolved (Some r), d', log)"
  shows "execModule eol svc d name args options sched =
     (case processResponse eol r options of
        Inl ex \<Rightarrow>
          (if isDaemonFailure ex
           then (svc_execModule svc name args options, d',
                 log @ [TraceWarning fallbackWarning,
                        CallFallback (FallbackExecModule name args options)])
           else (Rejected ex, d', log))
      | Inr res \<Rightarrow> (Resolved res, d', log))"
  using assms
  by (simp add: execModule_def execModuleWithDaemon_def processAwaited_def split: sum.splits)

lemma processResponse_merge:
  assumes "\<not> truthy_str (error r)" "stderr r = Some t" "t \<noteq> []"
    "truthy (get_prop options ''mergeStdOutErr'')"
    "\<not> truthy (get_prop options ''throwOnStdErr'')"
  shows "processResponse eol r options = Inr (r\<lparr>stdout := stdout r @ eol @ t\<rparr>)"
  using assms by (simp add: processResponse_def)

lemma processResponse_throw:
  assumes "\<not> truthy_str (error r)" "stderr r = Some t" "t \<noteq> []"
    "truthy (get_prop options ''throwOnStdErr'')"
  shows "processResponse eol r options = Inl (StdErrError t)"
  using assms by (simp add: processResponse_def)

text \<open>
  C1, as stated, fails on the code. With \<^verbatim>\<open>mergeStdOutErr\<close> set and the response
  \<^verbatim>\<open>{stdout: 'out', stderr: 'err'}\<close>, \<^verbatim>\<open>exec\<close> returns the merged \<^verbatim>\<open>stdout\<close> and the result
  still carries \<^verbatim>\<open>stderr: 'err'\<close>; with \<^verbatim>\<open>throwOnStdErr\<close> set as well, the same response gives
  no result at all but a \<^verbatim>\<open>StdErrError\<close>.
\<close>

theorem merged_result_keeps_stderr:
  "fst (exec [CHR 0x0A] sample_service (create False sample_proc) [''main.py'']
          [(''mergeStdOutErr'', JBool True)]
          [Response (Some \<lparr> error = None, stdout = ''out'', stderr = Some ''err'' \<rparr>)]) =
     Resolved \<lparr> error = None, stdout = ''out'' @ [CHR 0x0A] @ ''err'', stderr = Some ''err'' \<rparr>
   \<and> fst (exec [CHR 0x0A] sample_service (create False sample_proc) [''main.py'']
          [(''throwOnStdErr'', JBool True), (''mergeStdOutErr'', JBool True)]
          [Response (Some \<lparr> error = None, stdout = ''out'', stderr = Some ''err'' \<rparr>)]) =
     Rejected (StdErrError ''err'')"
  by (simp add: exec_after_response [OF sample_alive sample_gate(2) sample_send]
      exec_after_response [OF sample_alive sample_gate(4) sample_send]
      processResponse_def get_prop_def)

text \<open>
  C1, amended. For a response of \<^verbatim>\<open>exec\<close> or \<^verbatim>\<open>execModule\<close> with no (non-empty) error
  field and a non-empty stderr, and options with \<^verbatim>\<open>mergeStdOutErr\<close> set and \<^verbatim>\<open>throwOnStdErr\<close>
  not set, the result returned to the caller is the response with \<^verbatim>\<open>stdout\<close> replaced by
  the original stdout, the platform line separator and stderr; its \<^verbatim>\<open>stderr\<close> field is
  still the original stderr.
\<close>

theorem merge_appends_and_keeps_stderr:
  assumes "\<not> truthy_str (error r)" and "stderr r = Some t" and "t \<noteq> []"
    and "truthy (get_prop options ''mergeStdOutErr'')"
    and "\<not> truthy (get_prop options ''throwOnStdErr'')"
  shows "processResponse eol r options = Inr (r\<lparr>stdout := stdout r @ eol @ t\<rparr>)
    \<and> stderr (r\<lparr>stdout := stdout r @ eol @ t\<rparr>) = Some t
    \<and> (isAlive d \<longrightarrow> canExecFileUsingDaemon (a # rest) options = Inr True \<longrightarrow>
         sendRequest d
           (Request ''exec_file'' (FileName a) rest
              (get_prop options ''cwd'') (get_prop options ''env'')) sched =
         (Resolved (Some r), d', log) \<longrightarrow>
         exec eol svc d (a # rest) options sched =
         (Resolved (r\<lparr>stdout := stdout r @ eol @ t\<rparr>), d', log))
    \<and> (isAlive d \<longrightarrow> canExecModuleUsingDaemon name args options \<longrightarrow>
         sendRequest d
           (Request ''exec_module'' (ModuleName name) args
              (get_prop options ''cwd'') (get_prop options ''env'')) sched =
         (Resolved (Some r), d', log) \<longrightarrow>
         execModule eol svc d name args options sched =
         (Resolved (r\<lparr>stdout := stdout r @ eol @ t\<rparr>), d', log))"
proof -
  note p = processResponse_merge [OF assms, of eol]
  show ?thesis
    using assms(2)
    by (auto simp: p exec_after_response execModule_after_response
        simp del: canExecFileUsingDaemon.simps)
qed

theorem merge_appends_and_keeps_stderr_witness:
  "\<not> truthy_str (error \<lparr> error = None, stdout = ''out'', stderr = Some ''err'' \<rparr>)
   \<and> truthy (get_prop [(''mergeStdOutErr'', JBool True)] ''mergeStdOutErr'')
   \<and> \<not> truthy (get_prop [(''mergeStdOutErr'', JBool True)] ''throwOnStdErr'')
   \<and> processResponse [CHR 0x0A] \<lparr> error = None, stdout = ''out'', stderr = Some ''err'' \<rparr>
        [(''mergeStdOutErr'', JBool True)] =
       Inr \<lparr> error = None, stdout = ''out'' @ [CHR 0x0A] @ ''err'', stderr = Some ''err'' \<rparr>
   \<and> exec [CHR 0x0A] sample_service (create False sample_proc) [''main.py'']
        [(''mergeStdOutErr'', JBool True)]
        [Response (Some \<lparr> error = None, stdout = ''out'', stderr = Some ''err'' \<rparr>)] =
       (Resolved \<lparr> error = None, stdout = ''out'' @ [CHR 0x0A] @ ''err'', stderr = Some ''err'' \<rparr>,
        create False sample_proc,
        [ConnectionSendRequest
           (Request ''exec_file'' (FileName ''main.py'') [] JUndefined JUndefined)])"
proof -
  let ?r = "\<lparr> error = None, stdout = ''out'', stderr = Some ''err'' \<rparr>"
  let ?o = "[(''mergeStdOutErr'', JBool True)]"
  have h1: "\<not> truthy_str (error ?r)" by simp
  have h2: "stderr ?r = Some ''err''" by simp
  have h3: "''err'' \<noteq> []" by simp
  have h4: "truthy (get_prop ?o ''mergeStdOutErr'')" by (simp add: get_prop_def)
  have h5: "\<not> truthy (get_prop ?o ''throwOnStdErr'')" by (simp add: get_prop_def)
  have c: "get_prop ?o ''cwd'' = JUndefined" "get_prop ?o ''env'' = JUndefined"
    by (simp_all add: get_prop_def)
  note t = merge_appends_and_keeps_stderr [OF h1 h2 h3 h4 h5, of "[CHR 0x0A]"
      "create False sample_proc" "''main.py''" "[]" _ "create False sample_proc" _ sample_service]
  show ?thesis
    using h1 h4 h5 t sample_alive sample_gate(2)
      sample_send [of "Request ''exec_file'' (FileName ''main.py'') [] JUndefined JUndefined" ?r]
    by (simp add: c del: canExecFileUsingDaemon.simps)
qed

subsection \<open>Strict treatment of stderr\<close>

lemma stopped_step:
  assumes "isStopped (subject st)"
  shows "isStopped (subject (stream_step tgt args options x st))
    \<and> delivered (subject (stream_step tgt args options x st)) = delivered (subject st)"
  using assms
  by (cases x)
    (auto simp: relay_def Subject_next_def Subject_error_def Subject_complete_def
       start_failed_def start_ok_def Let_def split: option.splits)

lemma stopped_run:
  assumes "isStopped (subject st)"
  shows "delivered (subject (run_stream tgt args options xs st)) = delivered (subject st)"
  using assms
proof (induction xs arbitrary: st)
  case Nil
  then show ?case by simp
next
  case (Cons x xs)
  note s = stopped_step [OF Cons.prems, of tgt args options x]
  from Cons.IH [of "stream_step tgt args options x st"] s
  show ?case by simp
qed

lemma relay_throw:
  assumes "truthy (get_prop options ''throwOnStdErr'')" "\<not> isStopped s"
  shows "relay options \<lparr> source = Stderr, out = t \<rparr> s =
           s\<lparr> isStopped := True, delivered := delivered s @ [Error (StdErrError t)] \<rparr>"
  using assms by (simp add: relay_def Subject_error_def)

lemma sample_error_response:
  "sendRequest (create False sample_proc) req
     [Response (Some \<lparr> error = Some ''boom'', stdout = [], stderr = Some ''warn'' \<rparr>)] =
   (Resolved (Some \<lparr> error = Some ''boom'', stdout = [], stderr = Some ''warn'' \<rparr>),
    create False sample_proc, [ConnectionSendRequest req])"
  by (rule sample_send)

lemma sample_stream:
  "execAsObservable (create False sample_proc) (FileName ''main.py'') [] options =
     Inr \<lparr> daemon = create False sample_proc, subject = Subject_new, subscribed = True,
           stdErr = [], start = AwaitingRace, timer = False,
           trace = [ConnectionSendRequest
                      (Request ''exec_file_observable'' (FileName ''main.py'') []
                         (get_prop options ''cwd'') (get_prop options ''env''))] \<rparr>"
  by (simp add: execAsObservable_def isAlive_def create_def sample_proc_def)

text \<open>
  C8, as stated, fails on the code. With \<^verbatim>\<open>throwOnStdErr\<close> set, a batch response that has
  a non-empty stderr and an error field makes the daemon attempt fail with a
  \<^verbatim>\<open>DaemonError\<close>, not a \<^verbatim>\<open>StdErrError\<close>, and \<^verbatim>\<open>exec\<close> then returns the result of the fallback
  executor. In the streaming path, once the start request has failed the stream has ended
  with that failure, and a stderr event relayed afterwards delivers nothing.
\<close>

theorem stderr_after_daemon_error:
  "fst (execFileWithDaemon [CHR 0x0A] (create False sample_proc) ''main.py'' []
          [(''throwOnStdErr'', JBool True)]
          [Response (Some \<lparr> error = Some ''boom'', stdout = [], stderr = Some ''warn'' \<rparr>)]) =
     Rejected (DaemonError ''Failed to execute using the daemon, boom'')
   \<and> fst (exec [CHR 0x0A] sample_service (create False sample_proc) [''main.py'']
          [(''throwOnStdErr'', JBool True)]
          [Response (Some \<lparr> error = Some ''boom'', stdout = [], stderr = Some ''warn'' \<rparr>)]) =
     Resolved \<lparr> error = None, stdout = ''spawned'', stderr = None \<rparr>
   \<and> delivered (subject (run_stream (FileName ''main.py'') [] [(''throwOnStdErr'', JBool True)]
          [Response (Some \<lparr> error = Some ''boom'', stdout = [], stderr = None \<rparr>),
           OutputNotification \<lparr> source = Stderr, out = ''warn'' \<rparr>]
          \<lparr> daemon = create False sample_proc, subject = Subject_new, subscribed = True,
            stdErr = [], start = AwaitingRace, timer = False, trace = [] \<rparr>)) =
     [Next \<lparr> source = Stderr,
              out = ''Failed to run main.py as observable with args '' @ [CHR 0x0A] \<rparr>,
      Error (DaemonError ''boom'')]"
proof -
  have 1: "fst (execFileWithDaemon [CHR 0x0A] (create False sample_proc) ''main.py'' []
          [(''throwOnStdErr'', JBool True)]
          [Response (Some \<lparr> error = Some ''boom'', stdout = [], stderr = Some ''warn'' \<rparr>)]) =
     Rejected (DaemonError ''Failed to execute using the daemon, boom'')"
    by (simp add: execFileWithDaemon_def sample_error_response processAwaited_def
        processResponse_def)
  have 2: "fst (exec [CHR 0x0A] sample_service (create False sample_proc) [''main.py'']
          [(''throwOnStdErr'', JBool True)]
          [Response (Some \<lparr> error = Some ''boom'', stdout = [], stderr = Some ''warn'' \<rparr>)]) =
     Resolved \<lparr> error = None, stdout = ''spawned'', stderr = None \<rparr>"
    by (simp add: exec_after_response [OF sample_alive sample_gate(3) sample_error_response]
        processResponse_def sample_service_def)
  have 3: "delivered (subject (run_stream (FileName ''main.py'') []
          [(''throwOnStdErr'', JBool True)]
          [Response (Some \<lparr> error = Some ''boom'', stdout = [], stderr = None \<rparr>),
           OutputNotification \<lparr> source = Stderr, out = ''warn'' \<rparr>]
          \<lparr> daemon = create False sample_proc, subject = Subject_new, subscribed = True,
            stdErr = [], start = AwaitingRace, timer = False, trace = [] \<rparr>)) =
     [Next \<lparr> source = Stderr,
              out = ''Failed to run main.py as observable with args '' @ [CHR 0x0A] \<rparr>,
      Error (DaemonError ''boom'')]"
    by (simp add: start_failed_def relay_def Subject_next_def Subject_error_def Subject_new_def
        errorMsg_def get_prop_def)
  from 1 2 3 show ?thesis by blast
qed

text \<open>
  C8, amended. Let \<^verbatim>\<open>throwOnStdErr\<close> be set. Batch path: when the response of the daemon is
  observed, has no (non-empty) error field and has a non-empty stderr, \<^verbatim>\<open>exec\<close> and
  \<^verbatim>\<open>execModule\<close> reject with a \<^verbatim>\<open>StdErrError\<close> carrying that stderr; there is no result and
  no further action. Streaming path: when a stderr-sourced output event is relayed while
  the call is still subscribed and its stream has not ended, the stream ends with a
  \<^verbatim>\<open>StdErrError\<close> carrying the event's text, and nothing that happens later is delivered.
\<close>

theorem throwOnStdErr_fails_the_call:
  assumes "truthy (get_prop options ''throwOnStdErr'')"
  shows "(\<not> truthy_str (error r) \<longrightarrow> stderr r = Some t \<longrightarrow> t \<noteq> [] \<longrightarrow>
           processResponse eol r options = Inl (StdErrError t)
         \<and> (isAlive d \<longrightarrow> canExecFileUsingDaemon (a # rest) options = Inr True \<longrightarrow>
              sendRequest d
                (Request ''exec_file'' (FileName a) rest
                   (get_prop options ''cwd'') (get_prop options ''env'')) sched =
              (Resolved (Some r), d', log) \<longrightarrow>
              exec eol svc d (a # rest) options sched = (Rejected (StdErrError t), d', log))
         \<and> (isAlive d \<longrightarrow> canExecModuleUsingDaemon name args options \<longrightarrow>
              sendRequest d
                (Request ''exec_module'' (ModuleName name) args
                   (get_prop options ''cwd'') (get_prop options ''env'')) sched =
              (Resolved (Some r), d', log) \<longrightarrow>
              execModule eol svc d name args options sched =
              (Rejected (StdErrError t), d', log)))
    \<and> (subscribed st \<longrightarrow> \<not> isStopped (subject st) \<longrightarrow>
         delivered (subject (run_stream tgt args options
           (OutputNotification \<lparr> source = Stderr, out = t \<rparr> # post) st)) =
         delivered (subject st) @ [Error (StdErrError t)])"
proof (intro conjI impI)
  assume h: "\<not> truthy_str (error r)" "stderr r = Some t" "t \<noteq> []"
  show p: "processResponse eol r options = Inl (StdErrError t)"
    by (rule processResponse_throw [OF h assms])
  {
    assume "isAlive d" "canExecFileUsingDaemon (a # rest) options = Inr True"
      "sendRequest d
         (Request ''exec_file'' (FileName a) rest
            (get_prop options ''cwd'') (get_prop options ''env'')) sched =
       (Resolved (Some r), d', log)"
    from exec_after_response [OF this, of eol svc]
    show "exec eol svc d (a # rest) options sched = (Rejected (StdErrError t), d', log)"
      by (simp add: p)
  }
  {
    assume "isAlive d" "canExecModuleUsingDaemon name args options"
      "sendRequest d
         (Request ''exec_module'' (ModuleName name) args
            (get_prop options ''cwd'') (get_prop options ''env'')) sched =
       (Resolved (Some r), d', log)"
    from execModule_after_response [OF this, of eol svc]
    show "execModule eol svc d name args options sched = (Rejected (StdErrError t), d', log)"
      by (simp add: p)
  }
next
  assume s: "subscribed st" "\<not> isStopped (subject st)"
  let ?st = "stream_step tgt args options (OutputNotification \<lparr> source = Stderr, out = t \<rparr>) st"
  have 1: "subject ?st =
      (subject st)\<lparr> isStopped := True,
                    delivered := delivered (subject st) @ [Error (StdErrError t)] \<rparr>"
    using s by (simp add: relay_throw [OF assms])
  then have "isStopped (subject ?st)"
    by simp
  from stopped_run [OF this, of tgt args options post] 1
  show "delivered (subject (run_stream tgt args options
           (OutputNotification \<lparr> source = Stderr, out = t \<rparr> # post) st)) =
         delivered (subject st) @ [Error (StdErrError t)]"
    by simp
qed

theorem throwOnStdErr_fails_the_call_witness:
  "truthy (get_prop [(''throwOnStdErr'', JBool True)] ''throwOnStdErr'')
   \<and> exec [CHR 0x0A] sample_service (create False sample_proc) [''main.py'']
        [(''throwOnStdErr'', JBool True)]
        [Response (Some \<lparr> error = None, stdout = ''out'', stderr = Some ''warn'' \<rparr>)] =
       (Rejected (StdErrError ''warn''), create False sample_proc,
        [ConnectionSendRequest
           (Request ''exec_file'' (FileName ''main.py'') [] JUndefined JUndefined)])
   \<and> delivered (subject (run_stream (FileName ''main.py'') [] [(''throwOnStdErr'', JBool True)]
        [OutputNotification \<lparr> source = Stderr, out = ''warn'' \<rparr>,
         OutputNotification \<lparr> source = Stdout, out = ''more'' \<rparr>,
         Response None, TimerFired]
        \<lparr> daemon = create False sample_proc, subject = Subject_new, subscribed = True,
          stdErr = [], start = AwaitingRace, timer = False, trace = [] \<rparr>)) =
       [Error (StdErrError ''warn'')]"
proof -
  let ?r = "\<lparr> error = None, stdout = ''out'', stderr = Some ''warn'' \<rparr>"
  let ?o = "[(''throwOnStdErr'', JBool True)]"
  let ?st = "\<lparr> daemon = create False sample_proc, subject = Subject_new, subscribed = True,
          stdErr = [], start = AwaitingRace, timer = False, trace = [] \<rparr>"
  have h: "truthy (get_prop ?o ''throwOnStdErr'')"
    by (simp add: get_prop_def)
  have c: "get_prop ?o ''cwd'' = JUndefined" "get_prop ?o ''env'' = JUndefined"
    by (simp_all add: get_prop_def)
  have s: "subscribed ?st" "\<not> isStopped (subject ?st)" "delivered (subject ?st) = []"
    by (simp_all add: Subject_new_def)
  note t = throwOnStdErr_fails_the_call [OF h,
      where r = ?r and t = "''warn''" and eol = "[CHR 0x0A]" and d = "create False sample_proc"
        and a = "''main.py''" and rest = "[]" and d' = "create False sample_proc"
        and svc = sample_service and st = ?st and tgt = "FileName ''main.py''" and args = "[]"
        and sched = "[Response (Some ?r)]"
        and log = "[ConnectionSendRequest
           (Request ''exec_file'' (FileName ''main.py'') [] JUndefined JUndefined)]"
        and post = "[OutputNotification \<lparr> source = Stdout, out = ''more'' \<rparr>,
                     Response None, TimerFired]"]
  show ?thesis
    using h t s sample_alive sample_gate(3)
      sample_send [of "Request ''exec_file'' (FileName ''main.py'') [] JUndefined JUndefined" ?r]
    by (simp add: c del: canExecFileUsingDaemon.simps run_stream.simps)
qed

end
